theory Spec2Isabelle
  imports Main "HOL-Library.Word"
begin

unbundle bit_operations_syntax

section \<open>The column writer of parquet-cpp\<close>

text \<open>
  This theory embeds \<^verbatim>\<open>src/parquet/column/writer.cc\<close>: the class
  \<^verbatim>\<open>ColumnWriter\<close> with its typed subclass \<^verbatim>\<open>TypedColumnWriter\<close>. A writer
  is a record of the members the constructor initialises; every member function takes
  the writer and returns the updated one. Exceptions are values of the type \<open>error\<close>.

  The collaborators that \<^verbatim>\<open>writer.cc\<close> only calls (the page writer, the level
  encoder, the two value encoders) are not defined in that file. Their answers are
  parameters of the model, collected in the record \<open>collaborators\<close>, so that every
  theorem holds for any implementation of them.
\<close>

subsection \<open>Machine types and buffers\<close>

type_synonym int16 = "16 word"
type_synonym int64 = "64 word"
type_synonym uint32 = "32 word"
type_synonym byte = "8 word"

text \<open>A \<^verbatim>\<open>Buffer\<close> is the sequence of its bytes.\<close>

type_synonym buffer = "byte list"

text \<open>
  \<^verbatim>\<open>reinterpret_cast<uint32_t*>(p)[0] = v\<close> stores the four bytes of \<open>v\<close> in the
  byte order of the host. The model is of a little-endian host, the only kind the
  Parquet format's readers and this library support: least significant byte first.
\<close>

definition uint32_bytes :: "uint32 \<Rightarrow> buffer" where
  "uint32_bytes v =
     [ucast v, ucast (drop_bit 8 v), ucast (drop_bit 16 v), ucast (drop_bit 24 v)]"

text \<open>The unsigned value a reader finds in the first four bytes of a buffer.\<close>

fun uint32_at_front :: "buffer \<Rightarrow> uint32 option" where
  "uint32_at_front (b0 # b1 # b2 # b3 # rest) =
     Some (ucast b0 OR push_bit 8 (ucast b1) OR push_bit 16 (ucast b2)
           OR push_bit 24 (ucast b3))"
| "uint32_at_front _ = None"

text \<open>
  The level sinks hold \<^verbatim>\<open>int16_t\<close> arrays as raw bytes
  (\<^verbatim>\<open>reinterpret_cast<const uint8_t*>(levels)\<close>, two bytes a level), and
  \<^verbatim>\<open>RleEncodeLevels\<close> reads them back with the opposite cast.
\<close>

definition int16_bytes :: "int16 \<Rightarrow> buffer" where
  "int16_bytes l = [ucast l, ucast (drop_bit 8 l)]"

fun int16s_of_bytes :: "buffer \<Rightarrow> int16 list" where
  "int16s_of_bytes (lo # hi # rest) =
     (ucast lo OR push_bit 8 (ucast hi)) # int16s_of_bytes rest"
| "int16s_of_bytes _ = []"

subsection \<open>Encodings and errors\<close>

text \<open>
  \<^verbatim>\<open>Encoding::type\<close> is declared in a header that is not part of the sources at
  hand. \<^verbatim>\<open>writer.cc\<close> names four of its members; every other member is
  \<open>OTHER_ENCODING n\<close>, \<open>n\<close> being its number.
\<close>

datatype encoding = PLAIN | PLAIN_DICTIONARY | RLE | RLE_DICTIONARY | OTHER_ENCODING nat

text \<open>
  The two \<^verbatim>\<open>throw\<close>s of the file: \<^verbatim>\<open>throw ParquetException(msg)\<close> in
  \<^verbatim>\<open>Close\<close> and \<^verbatim>\<open>ParquetException::NYI(msg)\<close> in the constructor.
  \<open>InvalidEncoderCast\<close> stands for the undefined behaviour of
  \<^verbatim>\<open>static_cast<DictEncoder<Type>*>\<close> in \<^verbatim>\<open>WriteDictionaryPage\<close> applied to
  an encoder that is not a dictionary encoder; the constructor rules this out.
\<close>

datatype error = ParquetException string | NYI string | InvalidEncoderCast

definition row_count_mismatch :: error where
  "row_count_mismatch =
     ParquetException
       ''Less then the number of expected rows written in the current column chunk''"

definition unsupported_encoding :: error where
  "unsupported_encoding = NYI ''Selected encoding is not supported''"

subsection \<open>The page writer\<close>

text \<open>
  The three member functions of \<^verbatim>\<open>PageWriter\<close> that the column writer calls, with
  their arguments. The state of a page writer is the sequence of calls it has received.
\<close>

datatype pager_call =
    Pager_WriteDictionaryPage int buffer encoding
  | Pager_WriteDataPage int64 int64 buffer encoding buffer encoding buffer encoding
  | Pager_Close

fun is_dictionary_page :: "pager_call \<Rightarrow> bool" where
  "is_dictionary_page (Pager_WriteDictionaryPage n b e) = True"
| "is_dictionary_page _ = False"

fun is_data_page :: "pager_call \<Rightarrow> bool" where
  "is_data_page (Pager_WriteDataPage n m d de r re v ve) = True"
| "is_data_page _ = False"

subsection \<open>The value encoders\<close>

text \<open>
  Modelled from the spec: \<^verbatim>\<open>PlainEncoder\<close> and \<^verbatim>\<open>DictEncoder\<close> are defined in
  \<^verbatim>\<open>parquet/encodings\<close>, which is not part of the sources at hand. The plain
  encoder is its accumulation buffer. The dictionary encoder is the list of its distinct
  values in code order and the index codes buffered since the last flush.
\<close>

datatype 'v encoder =
    is_PlainEncoder: PlainEncoder (plain_buffer: buffer)
  | is_DictEncoder: DictEncoder (dictionary: "'v list") (index_codes: "nat list")

subsection \<open>The collaborators\<close>

text \<open>
  \<^item> \<open>MaxBufferSize max_level n\<close> is \<^verbatim>\<open>LevelEncoder::MaxBufferSize(Encoding::RLE, max_level, n)\<close>.
  \<^item> \<open>LevelEncode max_level n capacity levels\<close> is the content of the output region
    after \<^verbatim>\<open>level_encoder_.Init(Encoding::RLE, max_level, n, region, capacity)\<close> and
    \<^verbatim>\<open>level_encoder_.Encode(n, levels)\<close>: the \<^verbatim>\<open>level_encoder_.len()\<close> bytes it
    wrote.
  \<^item> \<open>EncodeIndices k codes\<close> is what \<^verbatim>\<open>FlushValues\<close> of a dictionary encoder
    with \<open>k\<close> entries returns for the buffered index codes.
  \<^item> \<open>WriteDict values\<close> is the serialised dictionary that \<^verbatim>\<open>WriteDict\<close> leaves
    in a buffer of \<^verbatim>\<open>dict_encoded_size()\<close> bytes.
  \<^item> \<open>Pager calls call\<close> is the byte count a page writer that has received \<open>calls\<close>
    returns for \<open>call\<close>.
\<close>

record 'v collaborators =
  MaxBufferSize :: "int16 \<Rightarrow> int64 \<Rightarrow> int64"
  LevelEncode :: "int16 \<Rightarrow> int64 \<Rightarrow> int64 \<Rightarrow> int16 list \<Rightarrow> buffer"
  EncodeIndices :: "nat \<Rightarrow> nat list \<Rightarrow> buffer"
  WriteDict :: "'v list \<Rightarrow> buffer"
  Pager :: "pager_call list \<Rightarrow> pager_call \<Rightarrow> int64"

text \<open>
  Modelled from the spec: \<^verbatim>\<open>FlushValues\<close> is a member of the encoder classes. The
  plain encoder returns everything written and clears its buffer; the dictionary
  encoder returns the encoded index codes, clears them and keeps its dictionary.
\<close>

fun FlushValues :: "'v collaborators \<Rightarrow> 'v encoder \<Rightarrow> buffer \<times> 'v encoder" where
  "FlushValues env (PlainEncoder b) = (b, PlainEncoder [])"
| "FlushValues env (DictEncoder d codes) =
     (EncodeIndices env (length d) codes, DictEncoder d [])"

subsection \<open>The writer\<close>

record ColumnDescriptor =
  max_definition_level :: int16
  max_repetition_level :: int16

text \<open>The struct \<^verbatim>\<open>DataPageBuffers\<close>, a staged page.\<close>

record DataPageBuffers =
  page_num_buffered_values :: int64
  page_num_buffered_encoded_values :: int64
  page_definition_levels :: buffer
  page_repetition_levels :: buffer
  page_values :: buffer

text \<open>
  The members of \<^verbatim>\<open>ColumnWriter\<close> and \<^verbatim>\<open>TypedColumnWriter\<close>. \<open>pager\<close> is the
  state of \<^verbatim>\<open>pager_\<close>: the calls it has received. The allocator, the memory pool and
  the scratch member \<^verbatim>\<open>level_encoder_\<close>, which is initialised anew at each use, hold
  no state of their own.
\<close>

record 'v ColumnWriter =
  descr :: ColumnDescriptor
  pager :: "pager_call list"
  expected_rows :: int64
  has_dictionary :: bool
  num_buffered_values :: int64
  num_buffered_encoded_values :: int64
  num_rows :: int64
  total_bytes_written :: int64
  definition_levels_sink :: buffer
  repetition_levels_sink :: buffer
  data_page_buffers :: "DataPageBuffers list"
  current_encoder :: "'v encoder"

text \<open>
  \<^verbatim>\<open>ColumnWriter::ColumnWriter\<close> followed by the body of
  \<^verbatim>\<open>TypedColumnWriter::TypedColumnWriter\<close>. The page writer is handed over with
  the calls it has received so far.
\<close>

definition TypedColumnWriter ::
  "ColumnDescriptor \<Rightarrow> pager_call list \<Rightarrow> int64 \<Rightarrow> encoding \<Rightarrow> error + 'v ColumnWriter" where
  "TypedColumnWriter schema pgr expected encoding =
     (let base = \<lambda>enc. \<lparr>descr = schema, pager = pgr, expected_rows = expected,
            has_dictionary = (encoding = PLAIN_DICTIONARY \<or> encoding = RLE_DICTIONARY),
            num_buffered_values = 0, num_buffered_encoded_values = 0, num_rows = 0,
            total_bytes_written = 0, definition_levels_sink = [],
            repetition_levels_sink = [], data_page_buffers = [], current_encoder = enc\<rparr>
      in case encoding of
           PLAIN \<Rightarrow> Inr (base (PlainEncoder []))
         | PLAIN_DICTIONARY \<Rightarrow> Inr (base (DictEncoder [] []))
         | RLE_DICTIONARY \<Rightarrow> Inr (base (DictEncoder [] []))
         | _ \<Rightarrow> Inl unsupported_encoding)"

definition InitSinks :: "'v ColumnWriter \<Rightarrow> 'v ColumnWriter" where
  "InitSinks w = w\<lparr>definition_levels_sink := [], repetition_levels_sink := []\<rparr>"

text \<open>The array \<open>levels\<close> is passed with its length \<^verbatim>\<open>num_levels\<close>.\<close>

definition WriteDefinitionLevels :: "int16 list \<Rightarrow> 'v ColumnWriter \<Rightarrow> 'v ColumnWriter" where
  "WriteDefinitionLevels levels w =
     w\<lparr>definition_levels_sink := definition_levels_sink w @ concat (map int16_bytes levels)\<rparr>"

definition WriteRepetitionLevels :: "int16 list \<Rightarrow> 'v ColumnWriter \<Rightarrow> 'v ColumnWriter" where
  "WriteRepetitionLevels levels w =
     w\<lparr>repetition_levels_sink := repetition_levels_sink w @ concat (map int16_bytes levels)\<rparr>"

text \<open>
  \<^verbatim>\<open>RleEncodeLevels\<close>: the level encoder writes behind the first four bytes of a
  buffer of \<open>rle_size\<close> bytes, the first four bytes receive \<^verbatim>\<open>level_encoder_.len()\<close>
  as a \<^verbatim>\<open>uint32_t\<close>, and the buffer is cut to \<open>len + 4\<close> bytes. The two
  \<^verbatim>\<open>DCHECK\<close>s are debug assertions and compile to nothing in a release build, which
  is the build modelled here.
\<close>

definition RleEncodeLevels ::
  "'v collaborators \<Rightarrow> buffer \<Rightarrow> int16 \<Rightarrow> 'v ColumnWriter \<Rightarrow> buffer" where
  "RleEncodeLevels env buf max_level w =
     (let rle_size = MaxBufferSize env max_level (num_buffered_values w) + 4;
          payload = LevelEncode env max_level (num_buffered_values w) (rle_size - 4)
                      (int16s_of_bytes buf)
      in uint32_bytes (of_nat (length payload)) @ payload)"

text \<open>
  \<^verbatim>\<open>AddDataPage\<close>, the page cut. \<^verbatim>\<open>GetValuesBuffer()\<close> flushes the value
  encoder.
\<close>

definition AddDataPage :: "'v collaborators \<Rightarrow> 'v ColumnWriter \<Rightarrow> 'v ColumnWriter" where
  "AddDataPage env w =
     (let (vals, enc) = FlushValues env (current_encoder w);
          buffers = \<lparr>page_num_buffered_values = num_buffered_values w,
                     page_num_buffered_encoded_values = num_buffered_encoded_values w,
                     page_definition_levels = definition_levels_sink w,
                     page_repetition_levels = repetition_levels_sink w,
                     page_values = vals\<rparr>;
          buffers = (if 0 <s max_definition_level (descr w)
                     then buffers\<lparr>page_definition_levels :=
                            RleEncodeLevels env (page_definition_levels buffers)
                              (max_definition_level (descr w)) w\<rparr>
                     else buffers);
          buffers = (if 0 <s max_repetition_level (descr w)
                     then buffers\<lparr>page_repetition_levels :=
                            RleEncodeLevels env (page_repetition_levels buffers)
                              (max_repetition_level (descr w)) w\<rparr>
                     else buffers)
      in InitSinks (w\<lparr>current_encoder := enc,
                       data_page_buffers := data_page_buffers w @ [buffers]\<rparr>)
           \<lparr>num_buffered_values := 0, num_buffered_encoded_values := 0\<rparr>)"

text \<open>The call that \<^verbatim>\<open>WriteNewPage\<close> makes for a staged page.\<close>

definition data_page_call :: "bool \<Rightarrow> DataPageBuffers \<Rightarrow> pager_call" where
  "data_page_call dict buffers =
     Pager_WriteDataPage (page_num_buffered_values buffers)
       (page_num_buffered_encoded_values buffers) (page_definition_levels buffers) RLE
       (page_repetition_levels buffers) RLE (page_values buffers)
       (if dict then PLAIN_DICTIONARY else PLAIN)"

definition WriteNewPage ::
  "'v collaborators \<Rightarrow> DataPageBuffers \<Rightarrow> 'v ColumnWriter \<Rightarrow> 'v ColumnWriter" where
  "WriteNewPage env buffers w =
     (let call = data_page_call (has_dictionary w) buffers;
          bytes_written = Pager env (pager w) call
      in w\<lparr>pager := pager w @ [call],
           total_bytes_written := total_bytes_written w + bytes_written\<rparr>)"

text \<open>
  \<^verbatim>\<open>TypedColumnWriter::WriteDictionaryPage\<close>. Freeing the memory pool changes no
  member of the writer.
\<close>

definition dictionary_page_call :: "'v collaborators \<Rightarrow> 'v list \<Rightarrow> pager_call" where
  "dictionary_page_call env d =
     Pager_WriteDictionaryPage (int (length d)) (WriteDict env d) PLAIN_DICTIONARY"

definition WriteDictionaryPage ::
  "'v collaborators \<Rightarrow> 'v ColumnWriter \<Rightarrow> error + 'v ColumnWriter" where
  "WriteDictionaryPage env w =
     (case current_encoder w of
        PlainEncoder b \<Rightarrow> Inl InvalidEncoderCast
      | DictEncoder d codes \<Rightarrow>
          (let call = dictionary_page_call env d;
               bytes_written = Pager env (pager w) call
           in Inr (w\<lparr>pager := pager w @ [call],
                     total_bytes_written := total_bytes_written w + bytes_written\<rparr>)))"

text \<open>
  The loop of \<^verbatim>\<open>Close\<close> over the staged pages, from index \<open>i\<close> on:
  \<^verbatim>\<open>for (int i = 0; i < data_page_buffers_.size(); i++)\<close>. It ends because
  \<^verbatim>\<open>WriteNewPage\<close> stages no page.
\<close>

function Close_loop :: "'v collaborators \<Rightarrow> nat \<Rightarrow> 'v ColumnWriter \<Rightarrow> 'v ColumnWriter" where
  "Close_loop env i w =
     (if i < length (data_page_buffers w)
      then Close_loop env (Suc i) (WriteNewPage env (data_page_buffers w ! i) w)
      else w)"
  by pat_completeness auto
termination
  by (relation "measure (\<lambda>(env, i, w). length (data_page_buffers w) - i)")
     (auto simp: WriteNewPage_def Let_def)

declare Close_loop.simps [simp del]

text \<open>
  \<^verbatim>\<open>ColumnWriter::Close\<close>. The result is the value returned or the exception
  thrown, together with the writer as the call leaves it: what was written before a
  \<^verbatim>\<open>throw\<close> stays written.
\<close>

definition Close :: "'v collaborators \<Rightarrow> 'v ColumnWriter \<Rightarrow> (error + int64) \<times> 'v ColumnWriter" where
  "Close env w =
     (case (if has_dictionary w then WriteDictionaryPage env w else Inr w) of
        Inl e \<Rightarrow> (Inl e, w)
      | Inr w1 \<Rightarrow>
          (let w2 = (if 0 <s num_buffered_values w1 then AddDataPage env w1 else w1);
               w3 = Close_loop env 0 w2
           in if num_rows w3 \<noteq> expected_rows w3 then (Inl row_count_mismatch, w3)
              else (Inr (total_bytes_written w3), w3\<lparr>pager := pager w3 @ [Pager_Close]\<rparr>)))"

subsection \<open>What the page writer sees and answers\<close>

text \<open>
  The byte counts a page writer that has received \<open>calls\<close> returns for a sequence of
  further calls, made one after the other.
\<close>

fun answers :: "'v collaborators \<Rightarrow> pager_call list \<Rightarrow> pager_call list \<Rightarrow> int64 list" where
  "answers env calls [] = []"
| "answers env calls (c # cs) = Pager env calls c # answers env (calls @ [c]) cs"

text \<open>The pages staged when \<^verbatim>\<open>Close\<close> reaches its loop.\<close>

definition pages_at_close :: "'v collaborators \<Rightarrow> 'v ColumnWriter \<Rightarrow> DataPageBuffers list" where
  "pages_at_close env w =
     (if 0 <s num_buffered_values w then data_page_buffers (AddDataPage env w)
      else data_page_buffers w)"

text \<open>
  A writer is consistent when its flag \<^verbatim>\<open>has_dictionary_\<close> is set exactly for a
  dictionary encoder, as the constructor leaves it.
\<close>

definition consistent :: "'v ColumnWriter \<Rightarrow> bool" where
  "consistent w = (has_dictionary w = is_DictEncoder (current_encoder w))"

text \<open>
  The page-writing calls that \<^verbatim>\<open>Close\<close> makes before it compares the row
  counts: the dictionary page of a dictionary writer, then the staged pages.
\<close>

definition close_calls :: "'v collaborators \<Rightarrow> 'v ColumnWriter \<Rightarrow> pager_call list" where
  "close_calls env w =
     (if has_dictionary w
      then [dictionary_page_call env (dictionary (current_encoder w))] else [])
     @ map (data_page_call (has_dictionary w)) (pages_at_close env w)"

text \<open>
  Scanning a sequence of calls from its start, a dictionary page is met before any
  data page.
\<close>

fun dictionary_precedes_data :: "pager_call list \<Rightarrow> bool" where
  "dictionary_precedes_data [] = True"
| "dictionary_precedes_data (c # cs) =
     (is_dictionary_page c \<or> (\<not> is_data_page c \<and> dictionary_precedes_data cs))"




subsection \<open>Sample collaborators and writers\<close>

text \<open>
  Stand-ins for the collaborators, to run the model on concrete inputs: values are
  numbers, a level takes one byte, an index code or a dictionary entry takes one byte,
  and the page writer answers with the number of payload bytes plus a header of
  1 byte (dictionary page) or 2 bytes (data page).
\<close>

definition sample_collaborators :: "nat collaborators" where
  "sample_collaborators =
     \<lparr>MaxBufferSize = (\<lambda>max_level n. 64),
      LevelEncode = (\<lambda>max_level n capacity levels. map ucast levels),
      EncodeIndices = (\<lambda>k codes. map of_nat codes),
      WriteDict = (\<lambda>d. map of_nat d),
      Pager = (\<lambda>calls call.
        case call of
          Pager_WriteDictionaryPage n b e \<Rightarrow> of_nat (length b) + 1
        | Pager_WriteDataPage n m d de r re v ve \<Rightarrow> of_nat (length d + length r + length v) + 2
        | Pager_Close \<Rightarrow> 0)\<rparr>"

text \<open>
  The writers the constructor returns for a required, non-repeated column with plain
  encoding and for an optional, repeated column with dictionary encoding, both
  expecting no rows and handed a page writer that has received no call.
\<close>

definition fresh_plain_writer :: "nat ColumnWriter" where
  "fresh_plain_writer =
     \<lparr>descr = \<lparr>max_definition_level = 0, max_repetition_level = 0\<rparr>, pager = [],
      expected_rows = 0, has_dictionary = False, num_buffered_values = 0,
      num_buffered_encoded_values = 0, num_rows = 0, total_bytes_written = 0,
      definition_levels_sink = [], repetition_levels_sink = [], data_page_buffers = [],
      current_encoder = PlainEncoder []\<rparr>"

definition fresh_dict_writer :: "nat ColumnWriter" where
  "fresh_dict_writer =
     \<lparr>descr = \<lparr>max_definition_level = 1, max_repetition_level = 1\<rparr>, pager = [],
      expected_rows = 0, has_dictionary = True, num_buffered_values = 0,
      num_buffered_encoded_values = 0, num_rows = 0, total_bytes_written = 0,
      definition_levels_sink = [], repetition_levels_sink = [], data_page_buffers = [],
      current_encoder = DictEncoder [] []\<rparr>"

text \<open>
  A plain writer of a required, non-repeated column that expects two rows and holds
  two buffered values; the same writer expecting three rows; and a dictionary writer
  of an optional, repeated column that expects three rows, with one staged page of one
  value, one distinct value in its dictionary and two more buffered values with their
  levels.
\<close>

definition sample_plain_writer :: "nat ColumnWriter" where
  "sample_plain_writer =
     \<lparr>descr = \<lparr>max_definition_level = 0, max_repetition_level = 0\<rparr>, pager = [],
      expected_rows = 2, has_dictionary = False, num_buffered_values = 2,
      num_buffered_encoded_values = 2, num_rows = 2, total_bytes_written = 0,
      definition_levels_sink = [], repetition_levels_sink = [], data_page_buffers = [],
      current_encoder = PlainEncoder [7, 7]\<rparr>"

definition short_plain_writer :: "nat ColumnWriter" where
  "short_plain_writer = sample_plain_writer\<lparr>expected_rows := 3\<rparr>"

definition sample_dict_writer :: "nat ColumnWriter" where
  "sample_dict_writer =
     \<lparr>descr = \<lparr>max_definition_level = 1, max_repetition_level = 1\<rparr>, pager = [],
      expected_rows = 3, has_dictionary = True, num_buffered_values = 2,
      num_buffered_encoded_values = 2, num_rows = 3, total_bytes_written = 0,
      definition_levels_sink = [1, 0, 1, 0], repetition_levels_sink = [0, 0, 0, 0],
      data_page_buffers =
        [\<lparr>page_num_buffered_values = 1, page_num_buffered_encoded_values = 1,
          page_definition_levels = [1, 0, 0, 0, 1],
          page_repetition_levels = [1, 0, 0, 0, 0],
          page_values = [0]\<rparr>],
      current_encoder = DictEncoder [7] [0, 0]\<rparr>"

section \<open>Properties\<close>

subsection \<open>Bytes and words\<close>

lemma uint32_at_front_uint32_bytes: "uint32_at_front (uint32_bytes v @ rest) = Some v"
  unfolding uint32_bytes_def
  apply simp
  apply (rule bit_word_eqI)
  subgoal for n
    by (cases "n < 8"; cases "n < 16"; cases "n < 24") (auto simp: bit_simps not_less)
  done

lemma length_uint32_bytes: "length (uint32_bytes v) = 4"
  by (simp add: uint32_bytes_def)

subsection \<open>The page cut\<close>

lemma pager_AddDataPage: "pager (AddDataPage env w) = pager w"
  by (simp add: AddDataPage_def InitSinks_def Let_def split: prod.split)

lemma AddDataPage_appends:
  "data_page_buffers (AddDataPage env w) =
     data_page_buffers w @ [last (data_page_buffers (AddDataPage env w))]"
  by (simp add: AddDataPage_def InitSinks_def Let_def split: prod.split)

lemma AddDataPage_frame:
  "AddDataPage env (w\<lparr>pager := p, total_bytes_written := t\<rparr>) =
     (AddDataPage env w)\<lparr>pager := p, total_bytes_written := t\<rparr>"
  by (simp add: AddDataPage_def InitSinks_def RleEncodeLevels_def Let_def split: prod.split)

lemma is_DictEncoder_FlushValues:
  "is_DictEncoder (snd (FlushValues env e)) = is_DictEncoder e"
  by (cases e) simp_all

lemma AddDataPage_variant:
  "has_dictionary (AddDataPage env w) = has_dictionary w \<and>
   is_DictEncoder (current_encoder (AddDataPage env w)) = is_DictEncoder (current_encoder w)"
  using is_DictEncoder_FlushValues [of env "current_encoder w"]
  by (auto simp add: AddDataPage_def InitSinks_def Let_def split: prod.split)

lemma RleEncodeLevels_eq:
  "RleEncodeLevels env buf max_level w =
     (let payload = LevelEncode env max_level (num_buffered_values w)
                      (MaxBufferSize env max_level (num_buffered_values w))
                      (int16s_of_bytes buf)
      in uint32_bytes (of_nat (length payload)) @ payload)"
  by (simp add: RleEncodeLevels_def Let_def)

text \<open>
  Claim C6. A page cut appends exactly one staged page at the end of the staged
  sequence: the page holds the two buffered counters as they are at the cut, the two
  level buffers (run through \<^verbatim>\<open>RleEncodeLevels\<close> where the maximum level is
  positive) and the values flushed from the value encoder. The pages staged before are
  unchanged. After the cut both level sinks are empty and both buffered counters are 0;
  the row count and the bytes written are what they were.
\<close>

theorem AddDataPage_stages_one_page:
  "(let w' = AddDataPage env w; p = last (data_page_buffers w') in
     length (data_page_buffers w') = Suc (length (data_page_buffers w)) \<and>
     butlast (data_page_buffers w') = data_page_buffers w \<and>
     page_num_buffered_values p = num_buffered_values w \<and>
     page_num_buffered_encoded_values p = num_buffered_encoded_values w \<and>
     page_definition_levels p =
       (if 0 <s max_definition_level (descr w)
        then RleEncodeLevels env (definition_levels_sink w) (max_definition_level (descr w)) w
        else definition_levels_sink w) \<and>
     page_repetition_levels p =
       (if 0 <s max_repetition_level (descr w)
        then RleEncodeLevels env (repetition_levels_sink w) (max_repetition_level (descr w)) w
        else repetition_levels_sink w) \<and>
     page_values p = fst (FlushValues env (current_encoder w)) \<and>
     definition_levels_sink w' = [] \<and> repetition_levels_sink w' = [] \<and>
     num_buffered_values w' = 0 \<and> num_buffered_encoded_values w' = 0 \<and>
     num_rows w' = num_rows w \<and> total_bytes_written w' = total_bytes_written w)"
  by (simp add: AddDataPage_def InitSinks_def Let_def split: prod.split)

text \<open>
  Claim C4. The buffer that \<^verbatim>\<open>RleEncodeLevels\<close> returns is four bytes longer than
  the payload the level encoder produced; its first four bytes are the little-endian
  bytes of the payload's length and the rest is the payload. Read back as an unsigned
  number the prefix is the length of the payload (which fits 32 bits, as
  \<^verbatim>\<open>level_encoder_.len()\<close> is an \<^verbatim>\<open>int\<close>). At a page cut this buffer becomes
  the level component of the staged page, for each kind of level whose maximum is
  positive, and \<^verbatim>\<open>WriteNewPage\<close> passes the component on as it is.
\<close>

theorem RleEncodeLevels_length_prefixed:
  "(let payload = LevelEncode env max_level (num_buffered_values w)
                    (MaxBufferSize env max_level (num_buffered_values w))
                    (int16s_of_bytes buf);
        out = RleEncodeLevels env buf max_level w
    in length out = length payload + 4 \<and>
       take 4 out = uint32_bytes (of_nat (length payload)) \<and>
       drop 4 out = payload \<and>
       uint32_at_front out = Some (of_nat (length payload)) \<and>
       (length payload < 2 ^ 32 \<longrightarrow>
          map_option unat (uint32_at_front out) = Some (length payload))) \<and>
   (0 <s max_definition_level (descr w) \<longrightarrow>
      page_definition_levels (last (data_page_buffers (AddDataPage env w))) =
        RleEncodeLevels env (definition_levels_sink w) (max_definition_level (descr w)) w) \<and>
   (0 <s max_repetition_level (descr w) \<longrightarrow>
      page_repetition_levels (last (data_page_buffers (AddDataPage env w))) =
        RleEncodeLevels env (repetition_levels_sink w) (max_repetition_level (descr w)) w)"
proof (intro conjI)
  show "let payload = LevelEncode env max_level (num_buffered_values w)
                    (MaxBufferSize env max_level (num_buffered_values w))
                    (int16s_of_bytes buf);
        out = RleEncodeLevels env buf max_level w
    in length out = length payload + 4 \<and>
       take 4 out = uint32_bytes (of_nat (length payload)) \<and>
       drop 4 out = payload \<and>
       uint32_at_front out = Some (of_nat (length payload)) \<and>
       (length payload < 2 ^ 32 \<longrightarrow>
          map_option unat (uint32_at_front out) = Some (length payload))"
    by (simp add: RleEncodeLevels_eq Let_def length_uint32_bytes
          uint32_at_front_uint32_bytes unat_of_nat)
  show "0 <s max_definition_level (descr w) \<longrightarrow>
      page_definition_levels (last (data_page_buffers (AddDataPage env w))) =
        RleEncodeLevels env (definition_levels_sink w) (max_definition_level (descr w)) w"
    by (simp add: AddDataPage_def InitSinks_def Let_def split: prod.split)
  show "0 <s max_repetition_level (descr w) \<longrightarrow>
      page_repetition_levels (last (data_page_buffers (AddDataPage env w))) =
        RleEncodeLevels env (repetition_levels_sink w) (max_repetition_level (descr w)) w"
    by (simp add: AddDataPage_def InitSinks_def Let_def split: prod.split)
qed

lemma AddDataPage_sample_dict_writer:
  "data_page_buffers (AddDataPage sample_collaborators sample_dict_writer) =
     [\<lparr>page_num_buffered_values = 1, page_num_buffered_encoded_values = 1,
       page_definition_levels = [1, 0, 0, 0, 1],
       page_repetition_levels = [1, 0, 0, 0, 0], page_values = [0]\<rparr>,
      \<lparr>page_num_buffered_values = 2, page_num_buffered_encoded_values = 2,
       page_definition_levels = [2, 0, 0, 0, 1, 1],
       page_repetition_levels = [2, 0, 0, 0, 0, 0], page_values = [0, 0]\<rparr>]"
  by (simp add: AddDataPage_def InitSinks_def RleEncodeLevels_def uint32_bytes_def
        sample_dict_writer_def sample_collaborators_def Let_def word_sless_alt)

theorem RleEncodeLevels_length_prefixed_witness:
  "0 <s max_definition_level (descr sample_dict_writer) \<and>
   0 <s max_repetition_level (descr sample_dict_writer) \<and>
   RleEncodeLevels sample_collaborators (definition_levels_sink sample_dict_writer) 1
     sample_dict_writer = [2, 0, 0, 0, 1, 1] \<and>
   map_option unat (uint32_at_front [2, 0, 0, 0, 1, 1]) = Some 2 \<and>
   page_definition_levels
     (last (data_page_buffers (AddDataPage sample_collaborators sample_dict_writer))) =
     [2, 0, 0, 0, 1, 1] \<and>
   page_repetition_levels
     (last (data_page_buffers (AddDataPage sample_collaborators sample_dict_writer))) =
     [2, 0, 0, 0, 0, 0]"
proof -
  have levels: "0 <s max_definition_level (descr sample_dict_writer)"
    "0 <s max_repetition_level (descr sample_dict_writer)"
    by (simp_all add: sample_dict_writer_def word_sless_alt)
  have out: "RleEncodeLevels sample_collaborators (definition_levels_sink sample_dict_writer) 1
     sample_dict_writer = [2, 0, 0, 0, 1, 1]"
    by (simp add: RleEncodeLevels_def uint32_bytes_def sample_dict_writer_def
          sample_collaborators_def Let_def)
  have prefix: "map_option unat (uint32_at_front [2, 0, 0, 0, 1, 1]) = Some 2"
    by simp
  have evaluated:
    "0 <s max_definition_level (descr sample_dict_writer) \<and>
     0 <s max_repetition_level (descr sample_dict_writer) \<and>
     RleEncodeLevels sample_collaborators (definition_levels_sink sample_dict_writer) 1
       sample_dict_writer = [2, 0, 0, 0, 1, 1] \<and>
     map_option unat (uint32_at_front [2, 0, 0, 0, 1, 1]) = Some 2 \<and>
     page_definition_levels
       (last (data_page_buffers (AddDataPage sample_collaborators sample_dict_writer))) =
       [2, 0, 0, 0, 1, 1] \<and>
     page_repetition_levels
       (last (data_page_buffers (AddDataPage sample_collaborators sample_dict_writer))) =
       [2, 0, 0, 0, 0, 0]"
    using levels out prefix by (simp add: AddDataPage_sample_dict_writer)
  show ?thesis
    using RleEncodeLevels_length_prefixed [of sample_collaborators 1 sample_dict_writer
        "definition_levels_sink sample_dict_writer"] evaluated
    by -
qed

subsection \<open>What \<^verbatim>\<open>Close\<close> does\<close>

lemma fold_WriteNewPage:
  "fold (WriteNewPage env) ps w =
     w\<lparr>pager := pager w @ map (data_page_call (has_dictionary w)) ps,
       total_bytes_written := total_bytes_written w +
         sum_list (answers env (pager w) (map (data_page_call (has_dictionary w)) ps))\<rparr>"
proof (induction ps arbitrary: w)
  case Nil
  show ?case by simp
next
  case (Cons p ps)
  show ?case
    by (simp add: Cons.IH) (simp add: WriteNewPage_def Let_def add.assoc)
qed

lemma data_page_buffers_WriteNewPage:
  "data_page_buffers (WriteNewPage env p w) = data_page_buffers w"
  by (simp add: WriteNewPage_def Let_def)

lemma Close_loop_drop:
  "Close_loop env i w = fold (WriteNewPage env) (drop i (data_page_buffers w)) w"
proof (induction env i w rule: Close_loop.induct)
  case (1 env i w)
  show ?case
  proof (cases "i < length (data_page_buffers w)")
    case True
    then have d: "drop i (data_page_buffers w) =
        data_page_buffers w ! i # drop (Suc i) (data_page_buffers w)"
      by (simp add: Cons_nth_drop_Suc)
    show ?thesis
      using True "1.IH" [OF True]
      by (subst Close_loop.simps) (simp add: d data_page_buffers_WriteNewPage)
  next
    case False
    then show ?thesis by (subst Close_loop.simps) simp
  qed
qed

lemma Close_loop_fold:
  "Close_loop env 0 w = fold (WriteNewPage env) (data_page_buffers w) w"
  by (simp add: Close_loop_drop)

lemma Close_plain:
  assumes "\<not> has_dictionary w"
  shows "Close env w =
     (let w2 = (if 0 <s num_buffered_values w then AddDataPage env w else w);
          calls = map (data_page_call False) (pages_at_close env w);
          w3 = w2\<lparr>pager := pager w @ calls,
                  total_bytes_written :=
                    total_bytes_written w + sum_list (answers env (pager w) calls)\<rparr>
      in if num_rows w \<noteq> expected_rows w then (Inl row_count_mismatch, w3)
         else (Inr (total_bytes_written w3), w3\<lparr>pager := pager w3 @ [Pager_Close]\<rparr>))"
  using assms
  by (simp add: Close_def Close_loop_fold pages_at_close_def fold_WriteNewPage Let_def)
     (simp add: AddDataPage_def InitSinks_def Let_def split: prod.split)

lemma Close_dict:
  assumes "has_dictionary w" and "current_encoder w = DictEncoder d codes"
  shows "Close env w =
     (let w2 = (if 0 <s num_buffered_values w then AddDataPage env w else w);
          calls = dictionary_page_call env d
                    # map (data_page_call True) (pages_at_close env w);
          w3 = w2\<lparr>pager := pager w @ calls,
                  total_bytes_written :=
                    total_bytes_written w + sum_list (answers env (pager w) calls)\<rparr>
      in if num_rows w \<noteq> expected_rows w then (Inl row_count_mismatch, w3)
         else (Inr (total_bytes_written w3), w3\<lparr>pager := pager w3 @ [Pager_Close]\<rparr>))"
  using assms
  apply (simp add: Close_def Close_loop_fold WriteDictionaryPage_def pages_at_close_def fold_WriteNewPage
           Let_def AddDataPage_frame)
  apply (simp add: AddDataPage_def InitSinks_def Let_def add.assoc split: prod.split)
  done

lemma Close_consistent:
  assumes "consistent w"
  shows "Close env w =
     (let w2 = (if 0 <s num_buffered_values w then AddDataPage env w else w);
          w3 = w2\<lparr>pager := pager w @ close_calls env w,
                  total_bytes_written := total_bytes_written w +
                    sum_list (answers env (pager w) (close_calls env w))\<rparr>
      in if num_rows w \<noteq> expected_rows w then (Inl row_count_mismatch, w3)
         else (Inr (total_bytes_written w3), w3\<lparr>pager := pager w3 @ [Pager_Close]\<rparr>))"
proof (cases "has_dictionary w")
  case False
  then show ?thesis by (simp add: Close_plain close_calls_def Let_def)
next
  case True
  with assms obtain d codes where "current_encoder w = DictEncoder d codes"
    by (cases "current_encoder w") (simp_all add: consistent_def)
  with True show ?thesis by (simp add: Close_dict close_calls_def Let_def)
qed

lemma data_page_buffers_Close:
  "consistent w \<Longrightarrow> data_page_buffers (snd (Close env w)) = pages_at_close env w"
  by (simp add: Close_consistent Let_def pages_at_close_def)

lemma is_data_page_data_page_call: "list_all is_data_page (map (data_page_call b) ps)"
  by (simp add: list_all_iff data_page_call_def)

lemma dictionary_precedes_data_append:
  "dictionary_precedes_data calls \<Longrightarrow>
     dictionary_precedes_data (calls @ Pager_WriteDictionaryPage n b e # rest)"
  by (induction calls) auto

lemma PagerClose_notin_close_calls: "Pager_Close \<notin> set (close_calls env w)"
  by (auto simp: close_calls_def data_page_call_def dictionary_page_call_def)

lemma Close_variant:
  "has_dictionary (snd (Close env w)) = has_dictionary w \<and>
   is_DictEncoder (current_encoder (snd (Close env w))) = is_DictEncoder (current_encoder w)"
proof (cases "has_dictionary w \<and> is_PlainEncoder (current_encoder w)")
  case True
  then show ?thesis
    by (cases "current_encoder w") (simp_all add: Close_def Close_loop_fold WriteDictionaryPage_def)
next
  case False
  then have "consistent w \<or> \<not> has_dictionary w"
    by (cases "current_encoder w") (auto simp: consistent_def)
  then show ?thesis
  proof
    assume "consistent w"
    then show ?thesis
      using AddDataPage_variant [of env w] by (simp add: Close_consistent Let_def)
  next
    assume "\<not> has_dictionary w"
    then show ?thesis
      using AddDataPage_variant [of env w] by (simp add: Close_plain Let_def)
  qed
qed

text \<open>The sample writers, closed.\<close>

lemma Close_sample_plain_writer:
  "Close sample_collaborators sample_plain_writer =
     (Inr 4, sample_plain_writer
        \<lparr>pager := [Pager_WriteDataPage 2 2 [] RLE [] RLE [7, 7] PLAIN, Pager_Close],
         num_buffered_values := 0, num_buffered_encoded_values := 0,
         total_bytes_written := 4,
         data_page_buffers :=
           [\<lparr>page_num_buffered_values = 2, page_num_buffered_encoded_values = 2,
             page_definition_levels = [], page_repetition_levels = [],
             page_values = [7, 7]\<rparr>],
         current_encoder := PlainEncoder []\<rparr>)"
  by (simp add: Close_def Close_loop_fold AddDataPage_def InitSinks_def WriteNewPage_def data_page_call_def
        sample_plain_writer_def sample_collaborators_def Let_def word_sless_alt)

lemma Close_short_plain_writer:
  "Close sample_collaborators short_plain_writer =
     (Inl row_count_mismatch, short_plain_writer
        \<lparr>pager := [Pager_WriteDataPage 2 2 [] RLE [] RLE [7, 7] PLAIN],
         num_buffered_values := 0, num_buffered_encoded_values := 0,
         total_bytes_written := 4,
         data_page_buffers :=
           [\<lparr>page_num_buffered_values = 2, page_num_buffered_encoded_values = 2,
             page_definition_levels = [], page_repetition_levels = [],
             page_values = [7, 7]\<rparr>],
         current_encoder := PlainEncoder []\<rparr>)"
  by (simp add: Close_def Close_loop_fold AddDataPage_def InitSinks_def WriteNewPage_def data_page_call_def
        short_plain_writer_def sample_plain_writer_def sample_collaborators_def Let_def
        word_sless_alt)

lemma Close_sample_dict_writer:
  "Close sample_collaborators sample_dict_writer =
     (Inr 31, sample_dict_writer
        \<lparr>pager :=
           [Pager_WriteDictionaryPage 1 [7] PLAIN_DICTIONARY,
            Pager_WriteDataPage 1 1 [1, 0, 0, 0, 1] RLE [1, 0, 0, 0, 0] RLE [0] PLAIN_DICTIONARY,
            Pager_WriteDataPage 2 2 [2, 0, 0, 0, 1, 1] RLE [2, 0, 0, 0, 0, 0] RLE [0, 0]
              PLAIN_DICTIONARY,
            Pager_Close],
         num_buffered_values := 0, num_buffered_encoded_values := 0,
         total_bytes_written := 31,
         definition_levels_sink := [], repetition_levels_sink := [],
         data_page_buffers :=
           [\<lparr>page_num_buffered_values = 1, page_num_buffered_encoded_values = 1,
             page_definition_levels = [1, 0, 0, 0, 1],
             page_repetition_levels = [1, 0, 0, 0, 0], page_values = [0]\<rparr>,
            \<lparr>page_num_buffered_values = 2, page_num_buffered_encoded_values = 2,
             page_definition_levels = [2, 0, 0, 0, 1, 1],
             page_repetition_levels = [2, 0, 0, 0, 0, 0], page_values = [0, 0]\<rparr>],
         current_encoder := DictEncoder [7] []\<rparr>)"
  by (simp add: Close_def Close_loop_fold AddDataPage_def InitSinks_def WriteNewPage_def data_page_call_def
        WriteDictionaryPage_def dictionary_page_call_def RleEncodeLevels_def
        uint32_bytes_def sample_dict_writer_def sample_collaborators_def Let_def
        word_sless_alt)

lemma Close_fresh_dict_writer:
  "Close sample_collaborators fresh_dict_writer =
     (Inr 1, fresh_dict_writer
        \<lparr>pager := [Pager_WriteDictionaryPage 0 [] PLAIN_DICTIONARY, Pager_Close],
         total_bytes_written := 1\<rparr>)"
  by (simp add: Close_def Close_loop_fold WriteDictionaryPage_def dictionary_page_call_def
        fresh_dict_writer_def sample_collaborators_def Let_def)

lemma TypedColumnWriter_fresh_dict_writer:
  "TypedColumnWriter \<lparr>max_definition_level = 1, max_repetition_level = 1\<rparr> [] 0
     RLE_DICTIONARY = Inr fresh_dict_writer"
  by (simp add: TypedColumnWriter_def fresh_dict_writer_def)

lemma TypedColumnWriter_fresh_plain_writer:
  "TypedColumnWriter \<lparr>max_definition_level = 0, max_repetition_level = 0\<rparr> [] 0
     PLAIN = Inr fresh_plain_writer"
  by (simp add: TypedColumnWriter_def fresh_plain_writer_def)

text \<open>
  Claim C3. \<^verbatim>\<open>Close\<close> cuts one final page when the buffered value count is
  positive and none otherwise; it then hands every staged page to the page writer, in
  staging order, after the dictionary page of a dictionary writer; the bytes written
  grow by the sum of the byte counts the page writer returned for these calls
  (\<^verbatim>\<open>int64_t\<close> arithmetic), and this total is what \<^verbatim>\<open>Close\<close> returns; it
  returns whenever the row counts agree. The bytes written are 0 at construction and
  change nowhere else, so the total is the sum over every page written. The writer has
  no state flag: the statement holds for every writer whose encoder is the one its
  flag \<^verbatim>\<open>has_dictionary_\<close> announces.
\<close>

theorem Close_cuts_emits_and_totals:
  assumes "consistent w"
  shows "(let r = fst (Close env w); w' = snd (Close env w);
              calls = (if has_dictionary w
                       then [dictionary_page_call env (dictionary (current_encoder w))]
                       else [])
                      @ map (data_page_call (has_dictionary w)) (data_page_buffers w')
          in (if 0 <s num_buffered_values w
              then data_page_buffers w' =
                     data_page_buffers w @ [last (data_page_buffers (AddDataPage env w))]
              else data_page_buffers w' = data_page_buffers w) \<and>
             pager w' = pager w @ calls @
                          (if num_rows w = expected_rows w then [Pager_Close] else []) \<and>
             total_bytes_written w' =
               total_bytes_written w + sum_list (answers env (pager w) calls) \<and>
             r = (if num_rows w = expected_rows w
                  then Inr (total_bytes_written w + sum_list (answers env (pager w) calls))
                  else Inl row_count_mismatch))"
proof -
  have pages: "data_page_buffers (snd (Close env w)) = pages_at_close env w"
    using assms by (rule data_page_buffers_Close)
  have cut: "0 <s num_buffered_values w \<Longrightarrow>
      pages_at_close env w =
        data_page_buffers w @ [last (data_page_buffers (AddDataPage env w))]"
    using AddDataPage_appends [of env w] by (simp add: pages_at_close_def)
  have nocut: "\<not> 0 <s num_buffered_values w \<Longrightarrow> pages_at_close env w = data_page_buffers w"
    by (simp add: pages_at_close_def)
  show ?thesis
    unfolding Let_def pages
    using cut nocut
    by (simp add: Close_consistent [OF assms] Let_def close_calls_def)
qed

theorem Close_cuts_emits_and_totals_witness:
  "consistent sample_dict_writer \<and>
   0 <s num_buffered_values sample_dict_writer \<and>
   fst (Close sample_collaborators sample_dict_writer) = Inr 31 \<and>
   length (data_page_buffers sample_dict_writer) = 1 \<and>
   length (data_page_buffers (snd (Close sample_collaborators sample_dict_writer))) = 2 \<and>
   pager (snd (Close sample_collaborators sample_dict_writer)) =
     [Pager_WriteDictionaryPage 1 [7] PLAIN_DICTIONARY,
      Pager_WriteDataPage 1 1 [1, 0, 0, 0, 1] RLE [1, 0, 0, 0, 0] RLE [0] PLAIN_DICTIONARY,
      Pager_WriteDataPage 2 2 [2, 0, 0, 0, 1, 1] RLE [2, 0, 0, 0, 0, 0] RLE [0, 0] PLAIN_DICTIONARY,
      Pager_Close]"
proof -
  have h: "consistent sample_dict_writer"
    by (simp add: consistent_def sample_dict_writer_def)
  have evaluated:
    "consistent sample_dict_writer \<and>
     0 <s num_buffered_values sample_dict_writer \<and>
     fst (Close sample_collaborators sample_dict_writer) = Inr 31 \<and>
     length (data_page_buffers sample_dict_writer) = 1 \<and>
     length (data_page_buffers (snd (Close sample_collaborators sample_dict_writer))) = 2 \<and>
     pager (snd (Close sample_collaborators sample_dict_writer)) =
       [Pager_WriteDictionaryPage 1 [7] PLAIN_DICTIONARY,
        Pager_WriteDataPage 1 1 [1, 0, 0, 0, 1] RLE [1, 0, 0, 0, 0] RLE [0] PLAIN_DICTIONARY,
        Pager_WriteDataPage 2 2 [2, 0, 0, 0, 1, 1] RLE [2, 0, 0, 0, 0, 0] RLE [0, 0]
          PLAIN_DICTIONARY,
        Pager_Close]"
    using h by (simp add: Close_sample_dict_writer) (simp add: sample_dict_writer_def word_sless_alt)
  show ?thesis
    using Close_cuts_emits_and_totals [OF h, of sample_collaborators] evaluated by -
qed

text \<open>
  Claim C2. \<^verbatim>\<open>Close\<close> throws the row count exception exactly when the row count
  differs from the expected row count, whichever of the two is larger, and returns
  exactly when they are equal. When it throws, the page writer has by then received
  the dictionary page (if any) and every staged page, the page cut from the values
  still buffered included, and it has not received \<^verbatim>\<open>Close\<close>.
\<close>

theorem Close_row_count_mismatch:
  assumes "consistent w"
  shows "((fst (Close env w) = Inl row_count_mismatch) = (num_rows w \<noteq> expected_rows w)) \<and>
         ((\<exists>t. fst (Close env w) = Inr t) = (num_rows w = expected_rows w)) \<and>
         (num_rows w \<noteq> expected_rows w \<longrightarrow>
            pager (snd (Close env w)) = pager w @ close_calls env w \<and>
            Pager_Close \<notin> set (close_calls env w) \<and>
            data_page_buffers (snd (Close env w)) = pages_at_close env w)"
  using PagerClose_notin_close_calls [of env w]
  by (simp add: Close_consistent [OF assms] Let_def pages_at_close_def)

theorem Close_row_count_mismatch_witness:
  "consistent short_plain_writer \<and>
   num_rows short_plain_writer \<noteq> expected_rows short_plain_writer \<and>
   fst (Close sample_collaborators short_plain_writer) = Inl row_count_mismatch \<and>
   pager (snd (Close sample_collaborators short_plain_writer)) =
     [Pager_WriteDataPage 2 2 [] RLE [] RLE [7, 7] PLAIN]"
proof -
  have h: "consistent short_plain_writer"
    by (simp add: consistent_def short_plain_writer_def sample_plain_writer_def)
  have evaluated:
    "consistent short_plain_writer \<and>
     num_rows short_plain_writer \<noteq> expected_rows short_plain_writer \<and>
     fst (Close sample_collaborators short_plain_writer) = Inl row_count_mismatch \<and>
     pager (snd (Close sample_collaborators short_plain_writer)) =
       [Pager_WriteDataPage 2 2 [] RLE [] RLE [7, 7] PLAIN]"
    using h by (simp add: Close_short_plain_writer)
      (simp add: short_plain_writer_def sample_plain_writer_def)
  show ?thesis
    using Close_row_count_mismatch [OF h, of sample_collaborators] evaluated by -
qed

text \<open>
  Claim C1. For a writer with a dictionary encoder, the first call \<^verbatim>\<open>Close\<close>
  makes to the page writer is the dictionary page write, a call of its own carrying
  the serialised dictionary; the data pages follow it, and nothing but
  \<^verbatim>\<open>Close\<close> of the page writer follows them. The byte count returned for the
  dictionary page is added to the bytes written, before the byte counts of the data
  pages. A page cut by itself makes no call to the page writer, so no data page
  reaches it before \<^verbatim>\<open>Close\<close> runs; and if a dictionary page precedes every
  data page among the calls the page writer has received, it still does after
  \<^verbatim>\<open>Close\<close>.
\<close>

theorem Close_dictionary_page_first:
  assumes "has_dictionary w" and "current_encoder w = DictEncoder d codes"
  shows "(let w' = snd (Close env w); dict = dictionary_page_call env d;
              emitted = drop (length (pager w)) (pager w');
              data = map (data_page_call True) (data_page_buffers w')
          in take (length (pager w)) (pager w') = pager w \<and>
             emitted = dict # data @
                         (if num_rows w = expected_rows w then [Pager_Close] else []) \<and>
             is_dictionary_page dict \<and> list_all is_data_page data \<and>
             dictionary_precedes_data emitted \<and>
             total_bytes_written w' =
               total_bytes_written w + Pager env (pager w) dict +
               sum_list (answers env (pager w @ [dict]) data) \<and>
             pager (AddDataPage env w) = pager w \<and>
             (dictionary_precedes_data (pager w) \<longrightarrow>
                dictionary_precedes_data (pager w')))"
  by (simp add: Close_dict [OF assms] Let_def pages_at_close_def dictionary_page_call_def
        pager_AddDataPage add.assoc is_data_page_data_page_call
        dictionary_precedes_data_append)

theorem Close_dictionary_page_first_witness:
  "has_dictionary sample_dict_writer \<and>
   current_encoder sample_dict_writer = DictEncoder [7] [0, 0] \<and>
   dictionary_precedes_data (pager sample_dict_writer) \<and>
   pager (snd (Close sample_collaborators sample_dict_writer)) =
     [Pager_WriteDictionaryPage 1 [7] PLAIN_DICTIONARY,
      Pager_WriteDataPage 1 1 [1, 0, 0, 0, 1] RLE [1, 0, 0, 0, 0] RLE [0] PLAIN_DICTIONARY,
      Pager_WriteDataPage 2 2 [2, 0, 0, 0, 1, 1] RLE [2, 0, 0, 0, 0, 0] RLE [0, 0] PLAIN_DICTIONARY,
      Pager_Close] \<and>
   dictionary_precedes_data (pager (snd (Close sample_collaborators sample_dict_writer))) \<and>
   total_bytes_written (snd (Close sample_collaborators sample_dict_writer)) = 2 + (13 + 16)"
proof -
  have h: "has_dictionary sample_dict_writer"
    "current_encoder sample_dict_writer = DictEncoder [7] [0, 0]"
    by (simp_all add: sample_dict_writer_def)
  have evaluated:
    "has_dictionary sample_dict_writer \<and>
     current_encoder sample_dict_writer = DictEncoder [7] [0, 0] \<and>
     dictionary_precedes_data (pager sample_dict_writer) \<and>
     pager (snd (Close sample_collaborators sample_dict_writer)) =
       [Pager_WriteDictionaryPage 1 [7] PLAIN_DICTIONARY,
        Pager_WriteDataPage 1 1 [1, 0, 0, 0, 1] RLE [1, 0, 0, 0, 0] RLE [0] PLAIN_DICTIONARY,
        Pager_WriteDataPage 2 2 [2, 0, 0, 0, 1, 1] RLE [2, 0, 0, 0, 0, 0] RLE [0, 0] PLAIN_DICTIONARY,
        Pager_Close] \<and>
     dictionary_precedes_data (pager (snd (Close sample_collaborators sample_dict_writer))) \<and>
     total_bytes_written (snd (Close sample_collaborators sample_dict_writer)) = 2 + (13 + 16)"
    using h by (simp add: Close_sample_dict_writer) (simp add: sample_dict_writer_def)
  show ?thesis
    using Close_dictionary_page_first [OF h, of sample_collaborators] evaluated by -
qed

text \<open>
  Claim C10. For a writer with a dictionary encoder, \<^verbatim>\<open>Close\<close> writes the
  dictionary page first, whatever else holds: the call carries the number of entries
  of the dictionary as it is at that moment. For a writer fresh from the constructor,
  to which no batch was written, the dictionary page has 0 entries and is the only
  page: it is written before the row counts are compared, also when the comparison
  then fails.
\<close>

theorem Close_always_writes_dictionary_page:
  "(has_dictionary w \<and> current_encoder w = DictEncoder d codes \<longrightarrow>
      length (pager w) < length (pager (snd (Close env w))) \<and>
      take (Suc (length (pager w))) (pager (snd (Close env w))) =
        pager w @ [Pager_WriteDictionaryPage (int (length d)) (WriteDict env d) PLAIN_DICTIONARY]) \<and>
   (TypedColumnWriter schema p n enc = Inr w \<and> has_dictionary w \<longrightarrow>
      pager (snd (Close env w)) =
        p @ Pager_WriteDictionaryPage 0 (WriteDict env []) PLAIN_DICTIONARY
          # (if n = 0 then [Pager_Close] else []) \<and>
      fst (Close env w) =
        (if n = 0 then Inr (Pager env p (Pager_WriteDictionaryPage 0 (WriteDict env []) PLAIN_DICTIONARY))
         else Inl row_count_mismatch))"
proof (intro conjI impI)
  assume a: "has_dictionary w \<and> current_encoder w = DictEncoder d codes"
  then have hd: "has_dictionary w" and ce: "current_encoder w = DictEncoder d codes"
    by simp_all
  show "length (pager w) < length (pager (snd (Close env w)))"
    by (simp add: Close_dict [OF hd ce] Let_def)
  show "take (Suc (length (pager w))) (pager (snd (Close env w))) =
        pager w @ [Pager_WriteDictionaryPage (int (length d)) (WriteDict env d) PLAIN_DICTIONARY]"
    by (simp add: Close_dict [OF hd ce] Let_def dictionary_page_call_def)
next
  assume a: "TypedColumnWriter schema p n enc = Inr w \<and> has_dictionary w"
  then have w: "w = \<lparr>descr = schema, pager = p, expected_rows = n,
            has_dictionary = True,
            num_buffered_values = 0, num_buffered_encoded_values = 0, num_rows = 0,
            total_bytes_written = 0, definition_levels_sink = [],
            repetition_levels_sink = [], data_page_buffers = [],
            current_encoder = DictEncoder [] []\<rparr>"
    by (cases enc) (auto simp: TypedColumnWriter_def)
  have hd: "has_dictionary w" and ce: "current_encoder w = DictEncoder [] []"
    by (simp_all add: w)
  have eq: "num_rows w = 0" "expected_rows w = n" "pager w = p" "total_bytes_written w = 0"
     "pages_at_close env w = []"
    by (simp_all add: w pages_at_close_def)
  show "pager (snd (Close env w)) =
        p @ Pager_WriteDictionaryPage 0 (WriteDict env []) PLAIN_DICTIONARY
          # (if n = 0 then [Pager_Close] else [])"
    by (auto simp add: Close_dict [OF hd ce] eq Let_def dictionary_page_call_def)
  show "fst (Close env w) =
        (if n = 0 then Inr (Pager env p (Pager_WriteDictionaryPage 0 (WriteDict env []) PLAIN_DICTIONARY))
         else Inl row_count_mismatch)"
    by (auto simp add: Close_dict [OF hd ce] eq Let_def dictionary_page_call_def)
qed

theorem Close_always_writes_dictionary_page_witness:
  "has_dictionary fresh_dict_writer \<and>
   current_encoder fresh_dict_writer = DictEncoder [] [] \<and>
   TypedColumnWriter \<lparr>max_definition_level = 1, max_repetition_level = 1\<rparr> [] 0
     RLE_DICTIONARY = Inr fresh_dict_writer \<and>
   data_page_buffers fresh_dict_writer = [] \<and>
   pager (snd (Close sample_collaborators fresh_dict_writer)) =
     [Pager_WriteDictionaryPage 0 [] PLAIN_DICTIONARY, Pager_Close] \<and>
   fst (Close sample_collaborators fresh_dict_writer) = Inr 1"
proof -
  have evaluated:
    "has_dictionary fresh_dict_writer \<and>
     current_encoder fresh_dict_writer = DictEncoder [] [] \<and>
     TypedColumnWriter \<lparr>max_definition_level = 1, max_repetition_level = 1\<rparr> [] 0
       RLE_DICTIONARY = Inr fresh_dict_writer \<and>
     data_page_buffers fresh_dict_writer = [] \<and>
     pager (snd (Close sample_collaborators fresh_dict_writer)) =
       [Pager_WriteDictionaryPage 0 [] PLAIN_DICTIONARY, Pager_Close] \<and>
     fst (Close sample_collaborators fresh_dict_writer) = Inr 1"
    by (simp add: Close_fresh_dict_writer TypedColumnWriter_fresh_dict_writer)
       (simp add: fresh_dict_writer_def)
  show ?thesis
    using Close_always_writes_dictionary_page [of fresh_dict_writer "[]" "[]" sample_collaborators
        "\<lparr>max_definition_level = 1, max_repetition_level = 1\<rparr>" "[]" 0 RLE_DICTIONARY]
      evaluated
    by -
qed

subsection \<open>The constructor and the encoder variant\<close>

text \<open>
  Claim C8. The constructor accepts \<^verbatim>\<open>PLAIN\<close>, \<^verbatim>\<open>PLAIN_DICTIONARY\<close> and
  \<^verbatim>\<open>RLE_DICTIONARY\<close> and throws \<^verbatim>\<open>NYI\<close> for every other encoding. For an
  accepted encoding the writer has a dictionary encoder, and its flag
  \<^verbatim>\<open>has_dictionary_\<close> set, exactly when the encoding is not \<^verbatim>\<open>PLAIN\<close>. No
  member function of \<^verbatim>\<open>writer.cc\<close> changes the flag or the kind of the encoder.
\<close>

theorem TypedColumnWriter_encoding_fixed:
  "(if enc \<in> {PLAIN, PLAIN_DICTIONARY, RLE_DICTIONARY}
    then \<exists>w0 :: 'v ColumnWriter. TypedColumnWriter schema p n enc = Inr w0 \<and>
           has_dictionary w0 = (enc \<noteq> PLAIN) \<and>
           is_DictEncoder (current_encoder w0) = (enc \<noteq> PLAIN) \<and>
           consistent w0
    else TypedColumnWriter schema p n enc = (Inl unsupported_encoding :: error + 'v ColumnWriter)) \<and>
   has_dictionary (AddDataPage env w) = has_dictionary w \<and>
   is_DictEncoder (current_encoder (AddDataPage env w)) = is_DictEncoder (current_encoder w) \<and>
   has_dictionary (snd (Close env w)) = has_dictionary w \<and>
   is_DictEncoder (current_encoder (snd (Close env w))) = is_DictEncoder (current_encoder w) \<and>
   has_dictionary (WriteDefinitionLevels levels w) = has_dictionary w \<and>
   current_encoder (WriteDefinitionLevels levels w) = current_encoder w \<and>
   has_dictionary (WriteRepetitionLevels levels w) = has_dictionary w \<and>
   current_encoder (WriteRepetitionLevels levels w) = current_encoder (w :: 'v ColumnWriter)"
proof -
  have a: "if enc \<in> {PLAIN, PLAIN_DICTIONARY, RLE_DICTIONARY}
    then \<exists>w0 :: 'v ColumnWriter. TypedColumnWriter schema p n enc = Inr w0 \<and>
           has_dictionary w0 = (enc \<noteq> PLAIN) \<and>
           is_DictEncoder (current_encoder w0) = (enc \<noteq> PLAIN) \<and>
           consistent w0
    else TypedColumnWriter schema p n enc = (Inl unsupported_encoding :: error + 'v ColumnWriter)"
    by (cases enc) (simp_all add: TypedColumnWriter_def consistent_def)
  show ?thesis
    using a AddDataPage_variant [of env w] Close_variant [of env w]
    by (simp add: WriteDefinitionLevels_def WriteRepetitionLevels_def)
qed

theorem TypedColumnWriter_encoding_fixed_witness:
  "TypedColumnWriter \<lparr>max_definition_level = 0, max_repetition_level = 0\<rparr> [] 0 RLE =
     (Inl unsupported_encoding :: error + nat ColumnWriter) \<and>
   TypedColumnWriter \<lparr>max_definition_level = 0, max_repetition_level = 0\<rparr> [] 0
     (OTHER_ENCODING 5) = (Inl unsupported_encoding :: error + nat ColumnWriter) \<and>
   TypedColumnWriter \<lparr>max_definition_level = 1, max_repetition_level = 1\<rparr> [] 0
     RLE_DICTIONARY = Inr fresh_dict_writer \<and>
   has_dictionary fresh_dict_writer \<and>
   has_dictionary (snd (Close sample_collaborators fresh_dict_writer)) \<and>
   is_DictEncoder (current_encoder (snd (Close sample_collaborators fresh_dict_writer)))"
proof -
  have evaluated:
    "TypedColumnWriter \<lparr>max_definition_level = 0, max_repetition_level = 0\<rparr> [] 0 RLE =
       (Inl unsupported_encoding :: error + nat ColumnWriter) \<and>
     TypedColumnWriter \<lparr>max_definition_level = 0, max_repetition_level = 0\<rparr> [] 0
       (OTHER_ENCODING 5) = (Inl unsupported_encoding :: error + nat ColumnWriter) \<and>
     TypedColumnWriter \<lparr>max_definition_level = 1, max_repetition_level = 1\<rparr> [] 0
       RLE_DICTIONARY = Inr fresh_dict_writer \<and>
     has_dictionary fresh_dict_writer \<and>
     has_dictionary (snd (Close sample_collaborators fresh_dict_writer)) \<and>
     is_DictEncoder (current_encoder (snd (Close sample_collaborators fresh_dict_writer)))"
    by (simp add: Close_fresh_dict_writer TypedColumnWriter_fresh_dict_writer)
       (simp add: fresh_dict_writer_def TypedColumnWriter_def)
  show ?thesis
    using TypedColumnWriter_encoding_fixed [of RLE_DICTIONARY "\<lparr>max_definition_level = 1, max_repetition_level = 1\<rparr>"
        "[]" 0 sample_collaborators fresh_dict_writer]
      evaluated
    by -
qed





lemma Close_fields:
  assumes "consistent w"
  shows "descr (snd (Close env w)) = descr w \<and>
         expected_rows (snd (Close env w)) = expected_rows w \<and>
         num_rows (snd (Close env w)) = num_rows w \<and>
         \<not> 0 <s num_buffered_values (snd (Close env w))"
  by (simp add: Close_consistent [OF assms] Let_def)
     (simp add: AddDataPage_def InitSinks_def Let_def split: prod.split)

lemma consistent_Close: "consistent w \<Longrightarrow> consistent (snd (Close env w))"
  using Close_variant [of env w] by (simp add: consistent_def)

lemma Close_twice_sample_plain_writer:
  "Close sample_collaborators (snd (Close sample_collaborators sample_plain_writer)) =
     (Inr 8, sample_plain_writer
        \<lparr>pager := [Pager_WriteDataPage 2 2 [] RLE [] RLE [7, 7] PLAIN, Pager_Close,
                   Pager_WriteDataPage 2 2 [] RLE [] RLE [7, 7] PLAIN, Pager_Close],
         num_buffered_values := 0, num_buffered_encoded_values := 0,
         total_bytes_written := 8,
         data_page_buffers :=
           [\<lparr>page_num_buffered_values = 2, page_num_buffered_encoded_values = 2,
             page_definition_levels = [], page_repetition_levels = [],
             page_values = [7, 7]\<rparr>],
         current_encoder := PlainEncoder []\<rparr>)"
  by (simp add: Close_sample_plain_writer)
     (simp add: Close_def Close_loop_fold WriteNewPage_def data_page_call_def
        sample_plain_writer_def sample_collaborators_def Let_def word_sless_alt)

lemma Close_twice_fresh_plain_writer:
  "Close sample_collaborators (snd (Close sample_collaborators fresh_plain_writer)) =
     (Inr 0, fresh_plain_writer\<lparr>pager := [Pager_Close, Pager_Close]\<rparr>)"
  by (simp add: Close_def Close_loop_fold fresh_plain_writer_def sample_collaborators_def Let_def)

subsection \<open>Columns without levels\<close>














subsection \<open>After \<^verbatim>\<open>Close\<close>\<close>

text \<open>
  Claim C7 says that a writer is inert after a successful \<^verbatim>\<open>Close\<close>. The writer
  keeps no record of being closed. Closing a fresh plain writer twice succeeds twice and
  signals completion twice; closing twice a plain writer that holds two buffered values
  emits its data page twice.
\<close>

theorem Close_twice_counterexample:
  "TypedColumnWriter \<lparr>max_definition_level = 0, max_repetition_level = 0\<rparr> [] 0 PLAIN =
     Inr fresh_plain_writer \<and>
   fst (Close sample_collaborators fresh_plain_writer) = Inr 0 \<and>
   fst (Close sample_collaborators (snd (Close sample_collaborators fresh_plain_writer))) =
     Inr 0 \<and>
   pager (snd (Close sample_collaborators
            (snd (Close sample_collaborators fresh_plain_writer)))) =
     [Pager_Close, Pager_Close] \<and>
   fst (Close sample_collaborators sample_plain_writer) = Inr 4 \<and>
   fst (Close sample_collaborators (snd (Close sample_collaborators sample_plain_writer))) =
     Inr 8 \<and>
   pager (snd (Close sample_collaborators
            (snd (Close sample_collaborators sample_plain_writer)))) =
     [Pager_WriteDataPage 2 2 [] RLE [] RLE [7, 7] PLAIN, Pager_Close,
      Pager_WriteDataPage 2 2 [] RLE [] RLE [7, 7] PLAIN, Pager_Close]"
proof -
  have fresh_once: "fst (Close sample_collaborators fresh_plain_writer) = Inr 0"
    by (simp add: Close_def Close_loop_fold fresh_plain_writer_def sample_collaborators_def Let_def)
  have fresh_twice:
    "fst (Close sample_collaborators (snd (Close sample_collaborators fresh_plain_writer))) =
       Inr 0"
    "pager (snd (Close sample_collaborators
              (snd (Close sample_collaborators fresh_plain_writer)))) =
       [Pager_Close, Pager_Close]"
    by (simp_all add: Close_twice_fresh_plain_writer)
  have once: "fst (Close sample_collaborators sample_plain_writer) = Inr 4"
    by (simp add: Close_sample_plain_writer)
  have twice:
    "fst (Close sample_collaborators (snd (Close sample_collaborators sample_plain_writer))) =
       Inr 8"
    "pager (snd (Close sample_collaborators
              (snd (Close sample_collaborators sample_plain_writer)))) =
       [Pager_WriteDataPage 2 2 [] RLE [] RLE [7, 7] PLAIN, Pager_Close,
        Pager_WriteDataPage 2 2 [] RLE [] RLE [7, 7] PLAIN, Pager_Close]"
    by (simp_all add: Close_twice_sample_plain_writer)
  show ?thesis
    using TypedColumnWriter_fresh_plain_writer fresh_once fresh_twice once twice
    by (intro conjI)
qed

text \<open>
  Claim C7, amended. \<^verbatim>\<open>Close\<close> returns when the row counts agree, having
  signalled completion to the page writer after the pages, and records nothing about
  having run: the descriptor, the expected row count, the row count, the
  flag \<^verbatim>\<open>has_dictionary_\<close> and the kind of the encoder are what they were, and
  the staged pages stay staged. A second \<^verbatim>\<open>Close\<close> on a plain writer is
  accepted: it returns again, hands every staged page to the page writer once more and
  signals completion once more.
\<close>

theorem Close_leaves_writer_usable:
  assumes "consistent w" and "num_rows w = expected_rows w"
  shows "(let w' = snd (Close env w); w'' = snd (Close env w') in
            (\<exists>t. fst (Close env w) = Inr t) \<and>
            pager w' = pager w @ close_calls env w @ [Pager_Close] \<and>
            descr w' = descr w \<and> expected_rows w' = expected_rows w \<and>
            num_rows w' = num_rows w \<and> has_dictionary w' = has_dictionary w \<and>
            is_DictEncoder (current_encoder w') = is_DictEncoder (current_encoder w) \<and>
            data_page_buffers w' = pages_at_close env w \<and>
            (\<not> has_dictionary w \<longrightarrow>
               (\<exists>t'. fst (Close env w') = Inr t') \<and>
               pager w'' = pager w' @ map (data_page_call False) (data_page_buffers w')
                             @ [Pager_Close] \<and>
               data_page_buffers w'' = data_page_buffers w'))"
proof -
  let ?w' = "snd (Close env w)"
  have c': "consistent ?w'" using assms(1) by (rule consistent_Close)
  have f: "descr ?w' = descr w" "expected_rows ?w' = expected_rows w"
    "num_rows ?w' = num_rows w" "\<not> 0 <s num_buffered_values ?w'"
    using Close_fields [OF assms(1), of env] by simp_all
  have v: "has_dictionary ?w' = has_dictionary w"
    "is_DictEncoder (current_encoder ?w') = is_DictEncoder (current_encoder w)"
    using Close_variant [of env w] by simp_all
  have r: "\<exists>t. fst (Close env w) = Inr t"
    using assms(2) by (simp add: Close_consistent [OF assms(1)] Let_def)
  have p: "data_page_buffers ?w' = pages_at_close env w"
    using assms(1) by (rule data_page_buffers_Close)
  have s: "pager ?w' = pager w @ close_calls env w @ [Pager_Close]"
    using assms(2) by (simp add: Close_consistent [OF assms(1)] Let_def)
  have again: "\<not> has_dictionary w \<Longrightarrow>
      (\<exists>t'. fst (Close env ?w') = Inr t') \<and>
      pager (snd (Close env ?w')) =
        pager ?w' @ map (data_page_call False) (data_page_buffers ?w') @ [Pager_Close] \<and>
      data_page_buffers (snd (Close env ?w')) = data_page_buffers ?w'"
    using f v assms(2)
    by (simp add: Close_consistent [OF c'] Let_def close_calls_def pages_at_close_def)
  show ?thesis
    unfolding Let_def using r f v p s again by blast
qed

theorem Close_leaves_writer_usable_witness:
  "consistent sample_plain_writer \<and>
   num_rows sample_plain_writer = expected_rows sample_plain_writer \<and>
   \<not> has_dictionary sample_plain_writer \<and>
   fst (Close sample_collaborators sample_plain_writer) = Inr 4 \<and>
   fst (Close sample_collaborators (snd (Close sample_collaborators sample_plain_writer))) =
     Inr 8"
proof -
  have h: "consistent sample_plain_writer"
    "num_rows sample_plain_writer = expected_rows sample_plain_writer"
    by (simp_all add: consistent_def sample_plain_writer_def)
  have plain: "\<not> has_dictionary sample_plain_writer"
    by (simp add: sample_plain_writer_def)
  have once: "fst (Close sample_collaborators sample_plain_writer) = Inr 4"
    by (simp add: Close_sample_plain_writer)
  have twice:
    "fst (Close sample_collaborators (snd (Close sample_collaborators sample_plain_writer))) =
       Inr 8"
    by (simp add: Close_twice_sample_plain_writer)
  show ?thesis
    using Close_leaves_writer_usable [OF h, of sample_collaborators] h plain once twice by (intro conjI)
qed

end
